theory Spec2Isabelle
  imports Complex_Main "HOL-Library.AList" "HOL-Library.Product_Lexorder"
begin

section \<open>Conventions of the embedding\<close>

text \<open>
  The Python sources of the trade simulator are embedded function by function.
  Python floats are modelled by the reals (exact arithmetic: NaN and the infinities are
  not represented, except where the source itself uses \<^verbatim>\<open>float('inf')\<close>, and
  rounding is written out only in the book walk of the order book), Python's \<^verbatim>\<open>None\<close> by \<open>None\<close> of an option type, and
  a raised exception by \<open>Inl\<close> of a sum type. A dictionary is an association list
  in insertion order with pairwise distinct keys, as a Python \<^verbatim>\<open>dict\<close> is.
\<close>

datatype py_error = TypeError | ZeroDivisionError

type_synonym level = "real \<times> real"

text \<open>Truthiness of an optional float: \<^verbatim>\<open>None\<close> and \<^verbatim>\<open>0.0\<close> are false.\<close>

definition truthy :: "real option \<Rightarrow> bool" where
  "truthy x = (case x of None \<Rightarrow> False | Some v \<Rightarrow> v \<noteq> 0)"

text \<open>\<^verbatim>\<open>a / b\<close> on two optional floats.\<close>

definition py_div :: "real option \<Rightarrow> real option \<Rightarrow> py_error + real" where
  "py_div a b =
     (case (a, b) of
        (Some x, Some y) \<Rightarrow> (if y = 0 then Inl ZeroDivisionError else Inr (x / y))
      | _ \<Rightarrow> Inl TypeError)"

text \<open>\<^verbatim>\<open>xs[:k]\<close>: a negative bound counts from the end.\<close>

definition slice_to :: "int \<Rightarrow> 'a list \<Rightarrow> 'a list" where
  "slice_to k xs = (if 0 \<le> k then take (nat k) xs else take (nat (int (length xs) + k)) xs)"

text \<open>\<^verbatim>\<open>xs[-k:]\<close> for a positive \<open>k\<close>.\<close>

definition last_n :: "nat \<Rightarrow> 'a list \<Rightarrow> 'a list" where
  "last_n k xs = drop (length xs - k) xs"

text \<open>\<^verbatim>\<open>str.lower\<close> on ASCII strings.\<close>

definition char_lower :: "char \<Rightarrow> char" where
  "char_lower c =
     (case map_of (zip ''ABCDEFGHIJKLMNOPQRSTUVWXYZ'' ''abcdefghijklmnopqrstuvwxyz'') c of
        Some l \<Rightarrow> l
      | None \<Rightarrow> c)"

definition lower :: "string \<Rightarrow> string" where
  "lower s = map char_lower s"

section \<open>utils/orderbook.py\<close>

record orderbook =
  symbol :: string
  max_depth :: int
  asks :: "level list"
  bids :: "level list"
  ask_dict :: "(real \<times> real) list"
  bid_dict :: "(real \<times> real) list"
  timestamp :: int
  last_update_id :: int
  mid_price_history :: "real list"
  spread_history :: "real list"
  depth_history :: "(real \<times> real) list"
  update_count :: int

text \<open>\<^verbatim>\<open>OrderBook.__init__(symbol, max_depth)\<close>.\<close>

definition OrderBook :: "string \<Rightarrow> int \<Rightarrow> orderbook" where
  "OrderBook name depth =
     \<lparr> symbol = name, max_depth = depth, asks = [], bids = [], ask_dict = [], bid_dict = [],
       timestamp = 0, last_update_id = 0, mid_price_history = [], spread_history = [],
       depth_history = [], update_count = 0 \<rparr>"

text \<open>
  One side of \<^verbatim>\<open>update\<close>: the loop \<^verbatim>\<open>for price, quantity in deltas\<close>, which stores a
  positive quantity under its price and pops the price otherwise.
\<close>

fun apply_deltas :: "(real \<times> real) list \<Rightarrow> level list \<Rightarrow> (real \<times> real) list" where
  "apply_deltas d [] = d"
| "apply_deltas d ((price, quantity) # rest) =
     apply_deltas (if quantity > 0 then AList.update price quantity d
                   else AList.delete price d) rest"

text \<open>
  \<^verbatim>\<open>_rebuild_arrays\<close>: the items of each dictionary sorted as tuples (ascending for
  the asks, \<^verbatim>\<open>reverse=True\<close> for the bids), cut to \<^verbatim>\<open>max_depth\<close> when longer.
\<close>

definition limit_depth :: "int \<Rightarrow> 'a list \<Rightarrow> 'a list" where
  "limit_depth depth xs = (if int (length xs) > depth then slice_to depth xs else xs)"

definition rebuild_arrays :: "orderbook \<Rightarrow> orderbook" where
  "rebuild_arrays ob =
     ob\<lparr> asks := limit_depth (max_depth ob) (sort (ask_dict ob)),
         bids := limit_depth (max_depth ob) (rev (sort (bid_dict ob))) \<rparr>"

text \<open>
  \<^verbatim>\<open>_update_statistics\<close>. The division \<^verbatim>\<open>spread / mid_price\<close> raises when the two best
  prices sum to zero; nothing has been appended at that point.
\<close>

definition update_statistics :: "orderbook \<Rightarrow> py_error + orderbook" where
  "update_statistics ob =
     (case (asks ob, bids ob) of
        ((best_ask, _) # _, (best_bid, _) # _) \<Rightarrow>
          (let mid_price = (best_ask + best_bid) / 2;
               spread = best_ask - best_bid
           in if mid_price = 0 then Inl ZeroDivisionError
              else
                (let spread_bps = (spread / mid_price) * 10000;
                     depth_range = mid_price * (1 / 100);
                     ask_depth = sum_list (map snd
                        (filter (\<lambda>(price, qty). price \<le> mid_price + depth_range) (asks ob)));
                     bid_depth = sum_list (map snd
                        (filter (\<lambda>(price, qty). price \<ge> mid_price - depth_range) (bids ob)));
                     mh = mid_price_history ob @ [mid_price];
                     sh = spread_history ob @ [spread_bps];
                     dh = depth_history ob @ [(ask_depth, bid_depth)]
                 in if length mh > 1000
                    then Inr (ob\<lparr> mid_price_history := last_n 1000 mh,
                                   spread_history := last_n 1000 sh,
                                   depth_history := last_n 1000 dh \<rparr>)
                    else Inr (ob\<lparr> mid_price_history := mh, spread_history := sh,
                                   depth_history := dh \<rparr>)))
      | _ \<Rightarrow> Inr ob)"

text \<open>
  \<^verbatim>\<open>update\<close> mutates the object in place, so the state it leaves behind exists
  whether or not \<^verbatim>\<open>_update_statistics\<close> raised: the result is the exception, if
  any, and the object.
\<close>

definition update :: "orderbook \<Rightarrow> level list \<Rightarrow> level list \<Rightarrow> int \<Rightarrow> py_error option \<times> orderbook" where
  "update ob new_asks new_bids ts =
     (let ob1 = ob\<lparr> timestamp := ts, update_count := update_count ob + 1 \<rparr>;
          ob2 = ob1\<lparr> ask_dict := apply_deltas (ask_dict ob1) new_asks \<rparr>;
          ob3 = ob2\<lparr> bid_dict := apply_deltas (bid_dict ob2) new_bids \<rparr>;
          ob4 = rebuild_arrays ob3
      in case update_statistics ob4 of
           Inl e \<Rightarrow> (Some e, ob4)
         | Inr ob5 \<Rightarrow> (None, ob5))"

text \<open>The states an order book goes through under a sequence of \<^verbatim>\<open>update\<close> calls.\<close>

fun run_updates :: "orderbook \<Rightarrow> (level list \<times> level list \<times> int) list \<Rightarrow> orderbook list" where
  "run_updates ob [] = []"
| "run_updates ob ((new_asks, new_bids, ts) # us) =
     snd (update ob new_asks new_bids ts) # run_updates (snd (update ob new_asks new_bids ts)) us"

definition get_best_ask :: "orderbook \<Rightarrow> real option \<times> real option" where
  "get_best_ask ob = (case asks ob of [] \<Rightarrow> (None, None) | (p, q) # _ \<Rightarrow> (Some p, Some q))"

definition get_best_bid :: "orderbook \<Rightarrow> real option \<times> real option" where
  "get_best_bid ob = (case bids ob of [] \<Rightarrow> (None, None) | (p, q) # _ \<Rightarrow> (Some p, Some q))"

definition get_mid_price :: "orderbook \<Rightarrow> real option" where
  "get_mid_price ob =
     (let best_ask_price = fst (get_best_ask ob);
          best_bid_price = fst (get_best_bid ob)
      in if truthy best_ask_price \<and> truthy best_bid_price
         then Some ((the best_ask_price + the best_bid_price) / 2)
         else None)"

definition get_spread :: "orderbook \<Rightarrow> py_error + real option" where
  "get_spread ob =
     (let best_ask_price = fst (get_best_ask ob);
          best_bid_price = fst (get_best_bid ob)
      in if truthy best_ask_price \<and> truthy best_bid_price
         then (let mid_price = (the best_ask_price + the best_bid_price) / 2;
                   spread = the best_ask_price - the best_bid_price
               in if mid_price = 0 then Inl ZeroDivisionError
                  else Inr (Some ((spread / mid_price) * 10000)))
         else Inr None)"

text \<open>
  The book walk adds up quantities, and the claim about it is an equality, so the rounding
  of each float operation is written out there: the loop and the function after it take
  the rounding \<open>rnd\<close> applied to the exact result of every \<^verbatim>\<open>+\<close>, \<^verbatim>\<open>-\<close>, \<^verbatim>\<open>*\<close> and
  \<^verbatim>\<open>/\<close>. Python's floats are IEEE 754 binary64 numbers rounded to nearest, ties to even:
  \<open>float_round\<close>, with 53 significant bits and the smallest quantum \<open>2\<^sup>-\<^sup>1\<^sup>0\<^sup>7\<^sup>4\<close>
  (overflow to infinity is not represented). Exact arithmetic is the rounding
  \<open>\<lambda>x. x\<close>.
\<close>

definition round_half_even :: "real \<Rightarrow> int" where
  "round_half_even x =
     (let f = \<lfloor>x\<rfloor>; d = x - of_int f
      in if d < 1 / 2 then f else if 1 / 2 < d then f + 1 else if even f then f else f + 1)"

fun bit_length :: "nat \<Rightarrow> nat" where
  "bit_length n = (if n = 0 then 0 else Suc (bit_length (n div 2)))"

declare bit_length.simps [simp del]

definition float_round :: "real \<Rightarrow> real" where
  "float_round x =
     (let n = nat \<lfloor>\<bar>x\<bar> * 2 ^ 1074\<rfloor>;
          k = bit_length n - 53
      in sgn x * (of_int (round_half_even (\<bar>x\<bar> * 2 ^ 1074 / 2 ^ k)) * 2 ^ k / 2 ^ 1074))"

text \<open>
  The loop of \<^verbatim>\<open>calculate_market_impact\<close> over the levels, carrying
  \<^verbatim>\<open>remaining_qty\<close>, \<^verbatim>\<open>total_cost\<close> and \<^verbatim>\<open>executed_qty\<close>, updated in the order
  \<^verbatim>\<open>total_cost += executable_qty * price\<close>, \<^verbatim>\<open>executed_qty += executable_qty\<close>,
  \<^verbatim>\<open>remaining_qty -= executable_qty\<close>.
\<close>

fun walk_levels ::
  "(real \<Rightarrow> real) \<Rightarrow> level list \<Rightarrow> real \<Rightarrow> real \<Rightarrow> real \<Rightarrow> real \<times> real \<times> real" where
  "walk_levels rnd [] remaining_qty total_cost executed_qty =
     (remaining_qty, total_cost, executed_qty)"
| "walk_levels rnd ((price, level_qty) # rest) remaining_qty total_cost executed_qty =
     (if remaining_qty \<le> 0 then (remaining_qty, total_cost, executed_qty)
      else walk_levels rnd rest
             (rnd (remaining_qty - min remaining_qty level_qty))
             (rnd (total_cost + rnd (min remaining_qty level_qty * price)))
             (rnd (executed_qty + min remaining_qty level_qty)))"

definition side_levels :: "orderbook \<Rightarrow> string \<Rightarrow> level list" where
  "side_levels ob side = (if lower side = ''buy'' then asks ob else bids ob)"

text \<open>
  \<^verbatim>\<open>calculate_market_impact(side, quantity)\<close> returns
  \<^verbatim>\<open>(avg_price, impact_bps, executed_qty)\<close>; the sell branch divides by the average
  price. The mid price is the one \<^verbatim>\<open>get_mid_price\<close> gives.
\<close>

definition calculate_market_impact ::
  "(real \<Rightarrow> real) \<Rightarrow> orderbook \<Rightarrow> string \<Rightarrow> real \<Rightarrow> py_error + (real option \<times> real \<times> real)" where
  "calculate_market_impact rnd ob side quantity =
     (case walk_levels rnd (side_levels ob side) quantity 0 0 of
        (remaining_qty, total_cost, executed_qty) \<Rightarrow>
          if executed_qty > 0 then
            (let avg_price = rnd (total_cost / executed_qty);
                 mid_price = get_mid_price ob
             in if truthy mid_price then
                  (if lower side = ''buy''
                   then Inr (Some avg_price,
                             rnd (rnd (rnd (avg_price / the mid_price) - 1) * 10000), executed_qty)
                   else if avg_price = 0 then Inl ZeroDivisionError
                   else Inr (Some avg_price,
                             rnd (rnd (rnd (the mid_price / avg_price) - 1) * 10000), executed_qty))
                else Inr (Some avg_price, 0, executed_qty))
          else Inr (None, 0, 0))"

section \<open>models/slippage.py\<close>

text \<open>
  The loop of \<^verbatim>\<open>_calculate_price_impact\<close> over one side of the book, carrying
  \<^verbatim>\<open>remaining_qty\<close> and \<^verbatim>\<open>executed_value\<close>; a level that covers the remainder
  ends the loop.
\<close>

fun walk_book_side :: "level list \<Rightarrow> real \<Rightarrow> real \<Rightarrow> real \<times> real" where
  "walk_book_side [] remaining_qty executed_value = (remaining_qty, executed_value)"
| "walk_book_side ((price, level_size) # rest) remaining_qty executed_value =
     (if level_size \<ge> remaining_qty then (0, executed_value + remaining_qty * price)
      else walk_book_side rest (remaining_qty - level_size) (executed_value + level_size * price))"

text \<open>
  \<^verbatim>\<open>_calculate_price_impact(orderbook, quantity, side)\<close>. Multiplying or subtracting
  the \<^verbatim>\<open>None\<close> that \<^verbatim>\<open>get_mid_price\<close> returns raises \<^verbatim>\<open>TypeError\<close>, and
  \<^verbatim>\<open>executed_value / quantity\<close> raises on a zero quantity.
\<close>

definition calculate_price_impact :: "orderbook \<Rightarrow> real \<Rightarrow> string \<Rightarrow> py_error + real" where
  "calculate_price_impact ob quantity side =
     (let book_side = (if side = ''buy'' then asks ob else bids ob);
          direction = (if side = ''buy'' then 1 else - 1 :: real)
      in case walk_book_side book_side quantity 0 of
           (remaining_qty, executed_value) \<Rightarrow>
             (case (if remaining_qty > 0
                    then (if book_side \<noteq> []
                          then Inr (executed_value + remaining_qty * fst (last book_side))
                          else (case get_mid_price ob of
                                  None \<Rightarrow> Inl TypeError
                                | Some mid_price \<Rightarrow> Inr (executed_value + remaining_qty * mid_price)))
                    else Inr executed_value) of
                Inl e \<Rightarrow> Inl e
              | Inr executed_total \<Rightarrow>
                  if quantity = 0 then Inl ZeroDivisionError
                  else (case get_mid_price ob of
                          None \<Rightarrow> Inl TypeError
                        | Some mid_price \<Rightarrow>
                            Inr (direction * (executed_total / quantity - mid_price)))))"

section \<open>Depth of the ask side\<close>

text \<open>
  The generator \<^verbatim>\<open>sum(float(size) for _, size in orderbook.asks if float(_) < mid_price * factor)\<close>
  that both the market-impact and the maker/taker model use: the bound is computed
  once per level, so an unavailable mid price raises as soon as there is one ask level
  and not at all on an empty ask side.
\<close>

definition depth_below :: "level list \<Rightarrow> real option \<Rightarrow> real \<Rightarrow> py_error + real" where
  "depth_below levels mid_price factor =
     (if levels = [] then Inr 0
      else case mid_price of
             None \<Rightarrow> Inl TypeError
           | Some m \<Rightarrow> Inr (sum_list (map snd (filter (\<lambda>(price, level_size). price < m * factor) levels))))"

text \<open>\<^verbatim>\<open>quantity / depth if depth > 0 else 1.0\<close>.\<close>

definition relative_size_of :: "real \<Rightarrow> real \<Rightarrow> real" where
  "relative_size_of quantity depth = (if depth > 0 then quantity / depth else 1)"

section \<open>models/maker_taker.py\<close>

text \<open>
  The feature vector \<^verbatim>\<open>[spread, depth_5bps, depth_10bps, relative_size, norm_volatility]\<close>;
  the spread is \<^verbatim>\<open>None\<close> when the book has no mid price.
\<close>

type_synonym features = "real option \<times> real \<times> real \<times> real \<times> real"

record maker_taker_model =
  history :: "(features \<times> nat) list"
  trained :: bool

definition MakerTakerModel :: maker_taker_model where
  "MakerTakerModel = \<lparr> history = [], trained = False \<rparr>"

text \<open>
  What one call of \<^verbatim>\<open>predict\<close> takes from outside the repository: the fitted
  scikit-learn classifier (\<^verbatim>\<open>predict_proba(features)[0][1]\<close>, or an exception), whether
  \<^verbatim>\<open>fit\<close> raises, and the ten draws of \<^verbatim>\<open>np.random.random()\<close>.
\<close>

record sklearn_env =
  predict_proba :: "features \<Rightarrow> py_error + real"
  fit_raises :: bool
  random_draw :: "nat \<Rightarrow> real"

definition extract_features :: "orderbook \<Rightarrow> real \<Rightarrow> real \<Rightarrow> py_error + features" where
  "extract_features ob quantity volatility =
     (case get_spread ob of
        Inl e \<Rightarrow> Inl e
      | Inr spread \<Rightarrow>
          (case depth_below (asks ob) (get_mid_price ob) (10005 / 10000) of
             Inl e \<Rightarrow> Inl e
           | Inr depth_5bps \<Rightarrow>
               (case depth_below (asks ob) (get_mid_price ob) (1001 / 1000) of
                  Inl e \<Rightarrow> Inl e
                | Inr depth_10bps \<Rightarrow>
                    Inr (spread, depth_5bps, depth_10bps, relative_size_of quantity depth_5bps,
                         min (volatility / 10) 1))))"

definition simulate_execution :: "orderbook \<Rightarrow> real \<Rightarrow> real \<Rightarrow> py_error + real" where
  "simulate_execution ob quantity volatility =
     (let base_maker = max 0 (min (9 / 10) (1 - volatility / 15))
      in case depth_below (asks ob) (get_mid_price ob) (10005 / 10000) of
           Inl e \<Rightarrow> Inl e
         | Inr depth_5bps \<Rightarrow>
             (let relative_size = relative_size_of quantity depth_5bps;
                  size_adjustment = max 0 (min (1 / 2) ((1 / 2) * (1 - relative_size)))
              in case get_spread ob of
                   Inl e \<Rightarrow> Inl e
                 | Inr spread \<Rightarrow>
                     (case py_div spread (get_mid_price ob) of
                        Inl e \<Rightarrow> Inl e
                      | Inr spread_ratio \<Rightarrow>
                          (let spread_adjustment = min (2 / 10) (spread_ratio * 100)
                           in Inr (min (95 / 100)
                                    (max (5 / 100) (base_maker + size_adjustment + spread_adjustment)))))))"

text \<open>\<^verbatim>\<open>_update_model\<close>: ten synthetic labels, the cap of 1000, and the refit from 50 on.\<close>

definition update_model :: "maker_taker_model \<Rightarrow> sklearn_env \<Rightarrow> features \<Rightarrow> real \<Rightarrow> maker_taker_model" where
  "update_model st env feats maker_proportion =
     (let h = history st @
                map (\<lambda>i. (feats, if random_draw env i < maker_proportion then 1 else 0)) [0..<10];
          h' = (if length h > 1000 then last_n 1000 h else h)
      in if length h' \<ge> 50 \<and> \<not> fit_raises env
         then st\<lparr> history := h', trained := True \<rparr>
         else st\<lparr> history := h' \<rparr>)"

text \<open>
  \<^verbatim>\<open>MakerTakerModel.predict\<close> returns the pair
  \<^verbatim>\<open>(maker_proportion, taker_proportion)\<close> with the updated model. Feature extraction
  and the simulation run outside any \<^verbatim>\<open>try\<close>, before the model is touched.
\<close>

definition predict ::
  "maker_taker_model \<Rightarrow> sklearn_env \<Rightarrow> orderbook \<Rightarrow> real \<Rightarrow> real \<Rightarrow>
     py_error + (maker_taker_model \<times> real \<times> real)" where
  "predict st env ob quantity volatility =
     (case extract_features ob quantity volatility of
        Inl e \<Rightarrow> Inl e
      | Inr feats \<Rightarrow>
          (case simulate_execution ob quantity volatility of
             Inl e \<Rightarrow> Inl e
           | Inr simulated_maker \<Rightarrow>
               (let blended =
                      (if \<not> trained st \<or> length (history st) < 50 then simulated_maker
                       else (case predict_proba env feats of
                               Inl e \<Rightarrow> simulated_maker
                             | Inr maker_proba \<Rightarrow>
                                 (7 / 10) * maker_proba + (3 / 10) * simulated_maker));
                    st' = update_model st env feats simulated_maker;
                    maker_proportion = max 0 (min 1 blended);
                    taker_proportion = 1 - maker_proportion
                in Inr (st', maker_proportion, taker_proportion))))"

section \<open>models/market\_impact.py\<close>

record impact_model =
  temp_impact_alpha :: real
  perm_impact_beta :: real
  temp_impact_eta :: real
  perm_impact_gamma :: real
  risk_aversion :: real

definition MarketImpactModel :: impact_model where
  "MarketImpactModel =
     \<lparr> temp_impact_alpha = 1, perm_impact_beta = 1, temp_impact_eta = 5 / 100,
       perm_impact_gamma = 5 / 100, risk_aversion = 1 / 100 \<rparr>"

text \<open>
  \<^verbatim>\<open>_temporary_impact\<close> and \<^verbatim>\<open>_permanent_impact\<close> are
  \<^verbatim>\<open>coefficient * (volume ** exponent)\<close>. Both exponents are the \<^verbatim>\<open>1.0\<close> that
  \<^verbatim>\<open>__init__\<close> stores and nothing assigns again, and \<^verbatim>\<open>x ** 1.0\<close> is \<^verbatim>\<open>x\<close>.
\<close>

definition temporary_impact :: "impact_model \<Rightarrow> real \<Rightarrow> real" where
  "temporary_impact m volume = temp_impact_eta m * volume"

definition permanent_impact :: "impact_model \<Rightarrow> real \<Rightarrow> real" where
  "permanent_impact m volume = perm_impact_gamma m * volume"

definition time_step_size :: real where
  "time_step_size = 1 / 2"

text \<open>
  The body of the innermost loop of \<^verbatim>\<open>_calculate_optimal_trajectory\<close>: the cost of
  trading \<open>n\<close> out of \<open>shares\<close>, given the row \<^verbatim>\<open>value_function[t + 1]\<close>.
\<close>

definition total_cost :: "impact_model \<Rightarrow> real \<Rightarrow> real list \<Rightarrow> nat \<Rightarrow> nat \<Rightarrow> real" where
  "total_cost m volatility_decimal next_values shares n =
     real n * temporary_impact m (real n / time_step_size)
     + real (shares - n) * permanent_impact m (real n / time_step_size)
     + (1 / 2) * (risk_aversion m * volatility_decimal)\<^sup>2 * (real (shares - n))\<^sup>2 * time_step_size
     + next_values ! (shares - n)"

text \<open>
  \<^verbatim>\<open>best_value\<close> starts as \<^verbatim>\<open>float('inf')\<close>, written \<open>None\<close>; every cost is below it.
\<close>

definition below_best :: "real \<Rightarrow> real option \<Rightarrow> bool" where
  "below_best c best_value = (case best_value of None \<Rightarrow> True | Some b \<Rightarrow> c < b)"

text \<open>The scan \<^verbatim>\<open>for n in range(shares + 1)\<close> with its strict comparison.\<close>

fun scan_sizes :: "(nat \<Rightarrow> real) \<Rightarrow> nat list \<Rightarrow> real option \<times> nat \<Rightarrow> real option \<times> nat" where
  "scan_sizes cost [] best = best"
| "scan_sizes cost (n # ns) (best_value, best_share_amount) =
     scan_sizes cost ns
       (if below_best (cost n) best_value then (Some (cost n), n)
        else (best_value, best_share_amount))"

definition best_entry :: "impact_model \<Rightarrow> real \<Rightarrow> real list \<Rightarrow> nat \<Rightarrow> real option \<times> nat" where
  "best_entry m volatility_decimal next_values shares =
     scan_sizes (total_cost m volatility_decimal next_values shares) [0..<Suc shares] (None, 0)"

text \<open>
  One time slice of the backward induction: for every inventory up to \<open>N\<close> the pair
  \<^verbatim>\<open>(value_function[t, shares], best_moves[t, shares])\<close>. The scan always runs at
  \<open>n = 0\<close>, so the value stored is a finite one.
\<close>

definition dp_row :: "impact_model \<Rightarrow> real \<Rightarrow> nat \<Rightarrow> real list \<Rightarrow> (real \<times> nat) list" where
  "dp_row m volatility_decimal N next_values =
     map (\<lambda>shares. case best_entry m volatility_decimal next_values shares of
                      (best_value, best_share_amount) \<Rightarrow> (the best_value, best_share_amount))
       [0..<Suc N]"

text \<open>
  The rows of slices \<open>0 .. t\<close>, each computed from the values of the slice after it:
  the loop \<^verbatim>\<open>for t in range(time_steps - 2, -1, -1)\<close>.
\<close>

fun backward_induction ::
  "impact_model \<Rightarrow> real \<Rightarrow> nat \<Rightarrow> nat \<Rightarrow> real list \<Rightarrow> (real \<times> nat) list list" where
  "backward_induction m volatility_decimal N 0 next_values = []"
| "backward_induction m volatility_decimal N (Suc t) next_values =
     backward_induction m volatility_decimal N t
        (map fst (dp_row m volatility_decimal N next_values))
     @ [dp_row m volatility_decimal N next_values]"

text \<open>The terminal slice liquidates whatever is left.\<close>

definition terminal_row :: "impact_model \<Rightarrow> nat \<Rightarrow> (real \<times> nat) list" where
  "terminal_row m N =
     map (\<lambda>shares. (real shares * temporary_impact m (real shares / time_step_size), shares))
       [0..<Suc N]"

text \<open>
  The forward simulation \<^verbatim>\<open>for t in range(time_steps - 1)\<close> over the rows of
  \<^verbatim>\<open>best_moves\<close>: each step yields the move and the inventory left.
\<close>

fun forward_simulation :: "nat list list \<Rightarrow> nat \<Rightarrow> (nat \<times> nat) list" where
  "forward_simulation [] curr_inventory = []"
| "forward_simulation (moves # rest) curr_inventory =
     (moves ! curr_inventory, curr_inventory - moves ! curr_inventory)
     # forward_simulation rest (curr_inventory - moves ! curr_inventory)"

text \<open>
  \<^verbatim>\<open>_calculate_optimal_trajectory(quantity, volatility, time_steps)\<close> returns
  \<^verbatim>\<open>(value_function, best_moves, inventory_path, optimal_trajectory)\<close>. The quantity
  it is called with lies in \<open>[10, 1000]\<close>, where \<^verbatim>\<open>int(quantity)\<close> is the floor.
\<close>

definition calculate_optimal_trajectory ::
  "impact_model \<Rightarrow> real \<Rightarrow> real \<Rightarrow> nat \<Rightarrow> real list list \<times> nat list list \<times> nat list \<times> nat list" where
  "calculate_optimal_trajectory m quantity volatility time_steps =
     (let volatility_decimal = volatility / 100;
          N = nat \<lfloor>quantity\<rfloor>;
          rows = backward_induction m volatility_decimal N (time_steps - 1)
                   (map fst (terminal_row m N))
                 @ [terminal_row m N];
          value_function = map (map fst) rows;
          best_moves = map (map snd) rows;
          steps = forward_simulation (take (time_steps - 1) best_moves) N
      in (value_function, best_moves, N # map snd steps, map fst steps))"

text \<open>
  \<^verbatim>\<open>_adjust_params_from_orderbook\<close> assigns the two coefficients one after the other,
  so the object keeps the first when the second computation raises: the result is the
  exception, if any, and the model.
\<close>

definition adjust_params_from_orderbook ::
  "impact_model \<Rightarrow> orderbook \<Rightarrow> real \<Rightarrow> py_error option \<times> impact_model" where
  "adjust_params_from_orderbook m ob quantity =
     (let mid_price = get_mid_price ob
      in case depth_below (asks ob) mid_price (1005 / 1000) of
           Inl e \<Rightarrow> (Some e, m)
         | Inr depth \<Rightarrow>
             (let relative_size = relative_size_of quantity depth;
                  m1 = m\<lparr> temp_impact_eta :=
                            max (1 / 100) (min (1 / 10) ((5 / 100) * (1 + 2 * relative_size))) \<rparr>
              in case get_spread ob of
                   Inl e \<Rightarrow> (Some e, m1)
                 | Inr spread \<Rightarrow>
                     (case py_div spread mid_price of
                        Inl e \<Rightarrow> (Some e, m1)
                      | Inr spread_ratio \<Rightarrow>
                          (None, m1\<lparr> perm_impact_gamma :=
                                        max (1 / 100) (min (1 / 10) ((5 / 100) * (1 + 10 * spread_ratio))) \<rparr>))))"

text \<open>The two sums of \<^verbatim>\<open>calculate_impact\<close> over the trajectory.\<close>

definition temporary_component :: "impact_model \<Rightarrow> nat list \<Rightarrow> real" where
  "temporary_component m trajectory =
     sum_list (map (\<lambda>trade_size. if trade_size > 0
                                  then real trade_size * temporary_impact m (real trade_size)
                                  else 0) trajectory)"

definition permanent_component :: "impact_model \<Rightarrow> nat list \<Rightarrow> real" where
  "permanent_component m trajectory =
     sum_list (map (\<lambda>i. real (sum_list (drop i trajectory))
                         * permanent_impact m (real (trajectory ! i)))
                 [0..<length trajectory])"

definition dp_impact :: "impact_model \<Rightarrow> real \<Rightarrow> real \<Rightarrow> real" where
  "dp_impact m quantity volatility =
     (let normalized_quantity = min 1000 (max 10 (quantity / 10));
          optimal_trajectory = snd (snd (snd (calculate_optimal_trajectory m normalized_quantity volatility 10)));
          total_impact = temporary_component m optimal_trajectory
                         + permanent_component m optimal_trajectory;
          impact_percentage = (total_impact / normalized_quantity) * (quantity / 10000)
      in max 0 (min (1 / 10) impact_percentage))"

text \<open>
  The \<^verbatim>\<open>except\<close> branch. \<^verbatim>\<open>np.sqrt\<close> of a negative number is NaN, and
  \<^verbatim>\<open>min(0.1, nan)\<close> is \<^verbatim>\<open>0.1\<close>.
\<close>

definition fallback_impact :: "orderbook \<Rightarrow> real \<Rightarrow> py_error + real" where
  "fallback_impact ob quantity =
     (case depth_below (asks ob) (get_mid_price ob) (1005 / 1000) of
        Inl e \<Rightarrow> Inl e
      | Inr depth \<Rightarrow>
          (let relative_size = relative_size_of quantity depth
           in if relative_size < 0 then Inr (1 / 10)
              else Inr (min (1 / 10) ((2 / 100) * sqrt relative_size))))"

text \<open>
  \<^verbatim>\<open>calculate_impact(orderbook, quantity, volatility)\<close>. The parameters are adjusted
  before the \<^verbatim>\<open>try\<close>. Nothing inside the \<^verbatim>\<open>try\<close> raises in exact arithmetic, so whether
  the numerical code does is an input, \<open>dp_raises\<close>.
\<close>

definition calculate_impact ::
  "bool \<Rightarrow> impact_model \<Rightarrow> orderbook \<Rightarrow> real \<Rightarrow> real \<Rightarrow> (py_error + real) \<times> impact_model" where
  "calculate_impact dp_raises m ob quantity volatility =
     (case adjust_params_from_orderbook m ob quantity of
        (Some e, m') \<Rightarrow> (Inl e, m')
      | (None, m') \<Rightarrow>
          if dp_raises then (fallback_impact ob quantity, m')
          else (Inr (dp_impact m' quantity volatility), m'))"

section \<open>ws/okx\_ws.py\<close>

text \<open>
  The client is modelled with the calls it makes on the \<^verbatim>\<open>websocket\<close> library and on
  \<^verbatim>\<open>time\<close> recorded in order: constructing a \<^verbatim>\<open>WebSocketApp\<close>, starting a thread on
  its \<^verbatim>\<open>run_forever\<close>, sending a message on it, sleeping, starting the ping thread.
  Applications are numbered in the order of their construction.
\<close>

datatype message = Login | Subscribe string | Unsubscribe string | Ping

datatype effect = Sleep nat | NewApp nat | RunForever nat | Send nat message | StartPing | Close nat

record okx_websocket =
  api_key :: string
  api_secret :: string
  ws :: "nat option"
  ws_thread_alive :: bool
  is_connected :: bool
  subscriptions :: "string list"
  ping_thread_alive :: bool
  should_reconnect :: bool
  apps_created :: nat
  effects :: "effect list"

definition OKXWebsocket :: "string \<Rightarrow> string \<Rightarrow> okx_websocket" where
  "OKXWebsocket key secret =
     \<lparr> api_key = key, api_secret = secret, ws = None, ws_thread_alive = False,
       is_connected = False, subscriptions = [], ping_thread_alive = False,
       should_reconnect = True, apps_created = 0, effects = [] \<rparr>"

text \<open>\<^verbatim>\<open>connect\<close> only constructs the application object.\<close>

definition connect :: "okx_websocket \<Rightarrow> okx_websocket" where
  "connect c =
     c\<lparr> ws := Some (apps_created c), apps_created := Suc (apps_created c),
        effects := effects c @ [NewApp (apps_created c)] \<rparr>"

text \<open>\<^verbatim>\<open>start\<close> is the one place that runs an application.\<close>

definition start :: "okx_websocket \<Rightarrow> okx_websocket" where
  "start c =
     (if ws_thread_alive c then c
      else (let c1 = connect (c\<lparr> should_reconnect := True \<rparr>)
            in c1\<lparr> ws_thread_alive := True,
                   effects := effects c1 @ [RunForever (the (ws c1))] \<rparr>))"

definition send_subscribe :: "okx_websocket \<Rightarrow> string \<Rightarrow> okx_websocket" where
  "send_subscribe c inst_id =
     (case ws c of
        Some app \<Rightarrow> if is_connected c then c\<lparr> effects := effects c @ [Send app (Subscribe inst_id)] \<rparr> else c
      | None \<Rightarrow> c)"

definition subscribe :: "okx_websocket \<Rightarrow> string \<Rightarrow> okx_websocket" where
  "subscribe c inst_id =
     (let c1 = c\<lparr> subscriptions := List.insert inst_id (subscriptions c) \<rparr>
      in if is_connected c1 then send_subscribe c1 inst_id else c1)"

definition start_ping_thread :: "okx_websocket \<Rightarrow> okx_websocket" where
  "start_ping_thread c =
     (if ping_thread_alive c then c
      else c\<lparr> ping_thread_alive := True, effects := effects c @ [StartPing] \<rparr>)"

text \<open>
  \<^verbatim>\<open>_on_open\<close>, which the library calls when a running application has connected:
  login, one subscription request per tracked symbol, the ping thread.
\<close>

definition on_open :: "okx_websocket \<Rightarrow> okx_websocket" where
  "on_open c =
     (let c1 = c\<lparr> is_connected := True \<rparr>;
          c2 = (if api_key c1 \<noteq> [] \<and> api_secret c1 \<noteq> []
                then (case ws c1 of
                        Some app \<Rightarrow> c1\<lparr> effects := effects c1 @ [Send app Login] \<rparr>
                      | None \<Rightarrow> c1)
                else c1);
          c3 = foldl send_subscribe c2 (subscriptions c2)
      in start_ping_thread c3)"

text \<open>\<^verbatim>\<open>_on_close\<close>: the five-second sleep and \<^verbatim>\<open>connect\<close>, when reconnection is on.\<close>

definition on_close :: "okx_websocket \<Rightarrow> okx_websocket" where
  "on_close c =
     (let c1 = c\<lparr> is_connected := False \<rparr>
      in if should_reconnect c1
         then connect (c1\<lparr> effects := effects c1 @ [Sleep 5] \<rparr>)
         else c1)"

section \<open>Invariants used in the proofs\<close>

text \<open>A dictionary of the book: distinct prices, positive quantities.\<close>

definition dict_ok :: "(real \<times> real) list \<Rightarrow> bool" where
  "dict_ok d \<longleftrightarrow> distinct (map fst d) \<and> (\<forall>l \<in> set d. 0 < snd l)"

definition state_ok :: "orderbook \<Rightarrow> bool" where
  "state_ok ob \<longleftrightarrow> dict_ok (ask_dict ob) \<and> dict_ok (bid_dict ob) \<and> 0 \<le> max_depth ob"

definition book_ok :: "orderbook \<Rightarrow> bool" where
  "book_ok ob \<longleftrightarrow>
     sorted_wrt (<) (map fst (asks ob)) \<and> sorted_wrt (>) (map fst (bids ob)) \<and>
     (\<forall>l \<in> set (asks ob). snd l \<noteq> 0) \<and> (\<forall>l \<in> set (bids ob). snd l \<noteq> 0) \<and>
     int (length (asks ob)) \<le> max_depth ob \<and> int (length (bids ob)) \<le> max_depth ob"

text \<open>The book of the examples: two levels on each side, best ask 101, best bid 100.\<close>

definition example_book :: orderbook where
  "example_book =
     snd (update (OrderBook ''BTC-USDT-SWAP'' 100)
            [(101, 50), (102, 100)] [(100, 50), (99, 10)] 1)"

text \<open>The same book after an update that thins the best bid and removes the second.\<close>

definition thinner_book :: orderbook where
  "thinner_book = snd (update example_book [] [(100, 7), (99, 0)] 2)"

text \<open>A classifier that answers one half, a fit that succeeds, draws that are all zero.\<close>

definition example_env :: sklearn_env where
  "example_env =
     \<lparr> predict_proba = (\<lambda>feats. Inr (1 / 2)), fit_raises = False, random_draw = (\<lambda>i. 0) \<rparr>"

text \<open>
  A client with credentials that tracks one symbol, has been started, and whose first
  connection has opened.
\<close>

definition running_client :: okx_websocket where
  "running_client = on_open (start (subscribe (OKXWebsocket ''key'' ''secret'') ''BTC-USDT-SWAP''))"


definition signed_book :: orderbook where
  "signed_book = snd (update (OrderBook ''BTC-USDT-SWAP'' 100) [(2, 1)] [(1, 1), (- 1, 1)] 1)"

text \<open>
  A model whose costs tie: with \<open>\<gamma> = 2\<eta>\<close> and no volatility, selling 0, 1 or 2 of two
  shares in the slice before the last costs the same.
\<close>

definition tie_model :: impact_model where
  "tie_model = MarketImpactModel\<lparr> perm_impact_gamma := 1 / 10 \<rparr>"

section \<open>The order book: ordering, availability, book walk\<close>



lemma set_alist_update: "set (AList.update k v d) \<subseteq> insert (k, v) (set d)"
  by (induction d) auto

lemma set_alist_delete: "set (AList.delete k d) \<subseteq> set d"
  by (auto simp: AList.delete_eq)

lemma dict_ok_update: "dict_ok d \<Longrightarrow> 0 < v \<Longrightarrow> dict_ok (AList.update k v d)"
  unfolding dict_ok_def using set_alist_update [of k v d]
  by (auto simp: distinct_update)

lemma dict_ok_delete: "dict_ok d \<Longrightarrow> dict_ok (AList.delete k d)"
  unfolding dict_ok_def using set_alist_delete [of k d]
  by (auto simp: distinct_delete)

lemma dict_ok_apply_deltas: "dict_ok d \<Longrightarrow> dict_ok (apply_deltas d ds)"
  by (induction d ds rule: apply_deltas.induct) (auto simp: dict_ok_update dict_ok_delete)

lemma fst_mono_lex: "(a::real \<times> real) \<le> b \<Longrightarrow> fst a \<le> fst b"
  by (cases a, cases b) (auto simp: less_eq_prod_def)

lemma sorted_map_fst: "sorted (xs :: (real \<times> real) list) \<Longrightarrow> sorted (map fst xs)"
  by (induction xs) (auto simp: fst_mono_lex)

lemma sort_keys_increasing:
  assumes "distinct (map fst (d :: (real \<times> real) list))"
  shows "sorted_wrt (<) (map fst (sort d))"
proof -
  have "distinct (map fst (sort d))"
    using assms by (simp add: distinct_map)
  then have "distinct (map fst (sort d))" .
  moreover have "sorted (map fst (sort d))" by (rule sorted_map_fst) simp
  ultimately show ?thesis by (simp add: strict_sorted_iff)
qed

lemma rev_sort_keys_decreasing:
  assumes "distinct (map fst (d :: (real \<times> real) list))"
  shows "sorted_wrt (>) (map fst (rev (sort d)))"
  using sort_keys_increasing [OF assms] by (simp add: rev_map [symmetric] sorted_wrt_rev)

lemma limit_depth_props:
  assumes "0 \<le> k"
  shows "int (length (limit_depth k xs)) \<le> k"
    and "set (limit_depth k xs) \<subseteq> set xs"
    and "sorted_wrt P (map f xs) \<Longrightarrow> sorted_wrt P (map f (limit_depth k xs))"
  using assms by (auto simp: limit_depth_def slice_to_def dest: in_set_takeD simp: take_map [symmetric] sorted_wrt_take)

lemma rebuild_arrays_ok:
  assumes "dict_ok (ask_dict ob)" "dict_ok (bid_dict ob)" "0 \<le> max_depth ob"
  shows "book_ok (rebuild_arrays ob)"
proof -
  let ?a = "sort (ask_dict ob)" and ?b = "rev (sort (bid_dict ob))"
  have sa: "sorted_wrt (<) (map fst ?a)" and sb: "sorted_wrt (>) (map fst ?b)"
    using assms by (simp_all add: dict_ok_def sort_keys_increasing rev_sort_keys_decreasing)
  have qa: "\<forall>l \<in> set ?a. snd l \<noteq> 0" and qb: "\<forall>l \<in> set ?b. snd l \<noteq> 0"
    using assms by (auto simp: dict_ok_def)
  have "\<forall>l \<in> set (limit_depth (max_depth ob) ?a). snd l \<noteq> 0"
    using limit_depth_props(2) [OF assms(3), of ?a] qa by blast
  moreover have "\<forall>l \<in> set (limit_depth (max_depth ob) ?b). snd l \<noteq> 0"
    using limit_depth_props(2) [OF assms(3), of ?b] qb by blast
  ultimately show ?thesis
    unfolding book_ok_def rebuild_arrays_def
    using limit_depth_props(1) [OF assms(3), of ?a] limit_depth_props(1) [OF assms(3), of ?b]
      limit_depth_props(3) [OF assms(3) sa] limit_depth_props(3) [OF assms(3) sb]
    by simp
qed

lemma update_statistics_fields:
  "update_statistics ob = Inr ob' \<Longrightarrow>
     asks ob' = asks ob \<and> bids ob' = bids ob \<and> max_depth ob' = max_depth ob \<and>
     ask_dict ob' = ask_dict ob \<and> bid_dict ob' = bid_dict ob"
  by (auto simp: update_statistics_def Let_def split: list.splits prod.splits if_splits)

lemma update_ok:
  assumes "state_ok ob"
  shows "state_ok (snd (update ob a b ts)) \<and> book_ok (snd (update ob a b ts)) \<and>
         max_depth (snd (update ob a b ts)) = max_depth ob"
proof -
  define ob3 where "ob3 = ob\<lparr> timestamp := ts, update_count := update_count ob + 1,
      ask_dict := apply_deltas (ask_dict ob) a, bid_dict := apply_deltas (bid_dict ob) b \<rparr>"
  have d: "dict_ok (ask_dict ob3)" "dict_ok (bid_dict ob3)" "0 \<le> max_depth ob3"
    using assms by (simp_all add: ob3_def state_ok_def dict_ok_apply_deltas)
  have r: "book_ok (rebuild_arrays ob3)" by (rule rebuild_arrays_ok [OF d])
  have f: "ask_dict (rebuild_arrays ob3) = ask_dict ob3" "bid_dict (rebuild_arrays ob3) = bid_dict ob3"
    "max_depth (rebuild_arrays ob3) = max_depth ob3"
    by (simp_all add: rebuild_arrays_def)
  have u: "update ob a b ts = (case update_statistics (rebuild_arrays ob3) of
           Inl e \<Rightarrow> (Some e, rebuild_arrays ob3) | Inr ob5 \<Rightarrow> (None, ob5))"
    by (simp add: update_def Let_def ob3_def cong: sum.case_cong)
  show ?thesis
  proof (cases "update_statistics (rebuild_arrays ob3)")
    case (Inl e)
    then show ?thesis using u r f d by (simp add: state_ok_def ob3_def)
  next
    case (Inr ob5)
    from update_statistics_fields [OF this] show ?thesis
      using u r f d Inr by (simp add: state_ok_def book_ok_def ob3_def)
  qed
qed

lemma run_updates_ok:
  "state_ok ob \<Longrightarrow> ob' \<in> set (run_updates ob us) \<Longrightarrow> book_ok ob' \<and> max_depth ob' = max_depth ob"
proof (induction ob us rule: run_updates.induct)
  case (1 ob)
  then show ?case by simp
next
  case (2 ob a b ts us)
  from update_ok [OF "2.prems"(1), of a b ts] "2.IH" "2.prems"(2)
  show ?case by auto
qed

text \<open>
  Claim C1. Starting from an empty order book with a non-negative \<^verbatim>\<open>max_depth\<close>, after
  each \<^verbatim>\<open>update\<close> of any sequence of updates the ask prices are strictly increasing,
  the bid prices strictly decreasing, no level has quantity zero, and each side has at
  most \<^verbatim>\<open>max_depth\<close> levels. This holds of the state \<^verbatim>\<open>update\<close> leaves behind also when
  its statistics step raised.
\<close>

theorem update_keeps_book_ordered:
  assumes "0 \<le> depth" and "ob \<in> set (run_updates (OrderBook name depth) us)"
  shows "sorted_wrt (<) (map fst (asks ob)) \<and> sorted_wrt (>) (map fst (bids ob)) \<and>
     (\<forall>l \<in> set (asks ob). snd l \<noteq> 0) \<and> (\<forall>l \<in> set (bids ob). snd l \<noteq> 0) \<and>
     int (length (asks ob)) \<le> depth \<and> int (length (bids ob)) \<le> depth"
proof -
  have "state_ok (OrderBook name depth)"
    using assms(1) by (simp add: state_ok_def dict_ok_def OrderBook_def)
  from run_updates_ok [OF this assms(2)] show ?thesis
    by (simp add: book_ok_def OrderBook_def)
qed

theorem update_keeps_book_ordered_witness:
  "(0::int) \<le> 100 \<and>
   example_book \<in> set (run_updates (OrderBook ''BTC-USDT-SWAP'' 100)
                          [([(101, 50), (102, 100)], [(100, 50), (99, 10)], 1)]) \<and>
   sorted_wrt (<) (map fst (asks example_book)) \<and>
   sorted_wrt (>) (map fst (bids example_book)) \<and>
   0 \<notin> snd ` set (asks example_book) \<and>
   0 \<notin> snd ` set (bids example_book) \<and>
   int (length (asks example_book)) \<le> 100 \<and> int (length (bids example_book)) \<le> 100"
proof -
  have d: "(0::int) \<le> 100" by simp
  have m: "example_book \<in> set (run_updates (OrderBook ''BTC-USDT-SWAP'' 100)
                          [([(101, 50), (102, 100)], [(100, 50), (99, 10)], 1)])"
    by (simp add: example_book_def)
  from update_keeps_book_ordered [OF d m] d m show ?thesis by force
qed



text \<open>
  Claim C9. When both sides of the book are non-empty and the best ask price or the best
  bid price is zero, \<^verbatim>\<open>get_mid_price\<close> and \<^verbatim>\<open>get_spread\<close> return \<^verbatim>\<open>None\<close>: the test is the
  truthiness of the two best prices.
\<close>

theorem zero_best_price_unavailable:
  assumes "asks ob = (pa, qa) # ra" "bids ob = (pb, qb) # rb" "pa = 0 \<or> pb = 0"
  shows "get_mid_price ob = None \<and> get_spread ob = Inr None"
  using assms by (auto simp: get_mid_price_def get_spread_def get_best_ask_def get_best_bid_def truthy_def)

theorem zero_best_price_unavailable_witness:
  "asks ((OrderBook ''X'' 100)\<lparr> asks := [(101, 50)], bids := [(0, 5)] \<rparr>) = (101, 50) # [] \<and>
   bids ((OrderBook ''X'' 100)\<lparr> asks := [(101, 50)], bids := [(0, 5)] \<rparr>) = (0, 5) # [] \<and>
   ((101::real) = 0 \<or> (0::real) = 0) \<and>
   get_mid_price ((OrderBook ''X'' 100)\<lparr> asks := [(101, 50)], bids := [(0, 5)] \<rparr>) = None \<and>
   get_spread ((OrderBook ''X'' 100)\<lparr> asks := [(101, 50)], bids := [(0, 5)] \<rparr>) = Inr None"
  using zero_best_price_unavailable
    [of "(OrderBook ''X'' 100)\<lparr> asks := [(101, 50)], bids := [(0, 5)] \<rparr>" 101 50 "[]" 0 5 "[]"]
  by simp

lemma walk_levels_stops:
  "r \<le> 0 \<Longrightarrow> walk_levels rnd ls r tc ex = (r, tc, ex)"
  by (cases ls) auto




text \<open>The exponent that \<open>float_round\<close> finds, and the rounding of a number scaled by hand.\<close>

lemma bit_length_eq: "2 ^ b \<le> n \<Longrightarrow> n < 2 ^ Suc b \<Longrightarrow> bit_length n = Suc b"
proof (induction b arbitrary: n)
  case 0
  then have "n = 1" by simp
  then show ?case by (simp add: bit_length.simps)
next
  case (Suc b)
  have "2 ^ b \<le> n div 2" using Suc.prems(1) by simp
  moreover have "n div 2 < 2 ^ Suc b" using Suc.prems(2) by simp
  ultimately have "bit_length (n div 2) = Suc b" by (rule Suc.IH)
  moreover have "0 < (2::nat) ^ Suc b" by simp
  then have "n \<noteq> 0" using Suc.prems(1) by linarith
  ultimately show ?case by (subst bit_length.simps) simp
qed

lemma float_round_scaled:
  assumes j: "j \<le> 1074" and lo: "2 ^ 52 \<le> \<bar>x\<bar> * 2 ^ j" and hi: "\<bar>x\<bar> * 2 ^ j < 2 ^ 53"
  shows "float_round x = sgn x * (of_int (round_half_even (\<bar>x\<bar> * 2 ^ j)) / 2 ^ j)"
proof -
  define d where "d = 1074 - j"
  define y where "y = \<bar>x\<bar> * 2 ^ 1074"
  have e: "1074 = j + d" using j by (simp add: d_def)
  have y: "y = \<bar>x\<bar> * 2 ^ j * 2 ^ d" unfolding y_def e power_add by simp
  have ylo: "2 ^ (52 + d) \<le> y"
    unfolding y power_add using lo by (intro mult_right_mono) simp_all
  have yhi: "y < 2 ^ (53 + d)"
    unfolding y power_add using hi by (intro mult_strict_right_mono) simp_all
  have "(2::int) ^ (52 + d) \<le> \<lfloor>y\<rfloor>" using ylo by (simp add: le_floor_iff)
  then have nlo: "2 ^ (52 + d) \<le> nat \<lfloor>y\<rfloor>"
    by (metis nat_mono nat_numeral nat_power_eq zero_le_numeral)
  have "\<lfloor>y\<rfloor> < 2 ^ (53 + d)" using yhi by (simp add: floor_less_iff)
  then have nhi: "nat \<lfloor>y\<rfloor> < 2 ^ Suc (52 + d)"
    by (simp add: nat_less_iff)
  have b: "bit_length (nat \<lfloor>y\<rfloor>) = Suc (52 + d)" by (rule bit_length_eq [OF nlo nhi])
  have q: "y / 2 ^ d = \<bar>x\<bar> * 2 ^ j" unfolding y by simp
  have r: "(2::real) ^ d / 2 ^ (j + d) = 1 / 2 ^ j" unfolding power_add by simp
  have "float_round x = sgn x * (of_int (round_half_even (y / 2 ^ d)) * 2 ^ d / 2 ^ (j + d))"
    unfolding float_round_def y_def [symmetric] Let_def b e [symmetric] by simp
  also have "\<dots> = sgn x * (of_int (round_half_even (y / 2 ^ d)) * (2 ^ d / 2 ^ (j + d)))"
    by simp
  also have "\<dots> = sgn x * (of_int (round_half_even (\<bar>x\<bar> * 2 ^ j)) / 2 ^ j)"
    unfolding q r by simp
  finally show ?thesis .
qed

lemma float_round_zero: "float_round 0 = 0"
  by (simp add: float_round_def)


lemma float_integers:
  "float_round 1 = 1" "float_round 2 = 2" "float_round (- 1) = - 1"
  using float_round_scaled [of 52 1] float_round_scaled [of 51 2] float_round_scaled [of 52 "- 1"]
  by (simp_all add: round_half_even_def)


lemma signed_book_levels:
  "asks signed_book = [(2, 1)]" "bids signed_book = [(1, 1), (- 1, 1)]"
  by (simp_all add: signed_book_def update_def OrderBook_def rebuild_arrays_def
      limit_depth_def update_statistics_def Let_def last_n_def)



text \<open>
  The walk does nothing for a quantity that is not positive, and the sell branch divides by
  an average price that is zero on a book with a negative bid price.
\<close>

lemma book_walk_nonpositive_quantity:
  "Q \<le> 0 \<Longrightarrow> calculate_market_impact rnd ob side Q = Inr (None, 0, 0)"
  by (simp add: calculate_market_impact_def walk_levels_stops)

lemma sell_raises_on_signed_book:
  "calculate_market_impact float_round signed_book ''sell'' 2 = Inl ZeroDivisionError"
  by (simp add: calculate_market_impact_def side_levels_def lower_def char_lower_def
      signed_book_levels float_integers float_round_zero get_mid_price_def get_best_ask_def
      get_best_bid_def truthy_def)



section \<open>The estimators and the feed client\<close>


lemma spread_of_mid:
  assumes "get_mid_price ob = Some mid" "mid \<noteq> 0"
  shows "\<exists>sp. get_spread ob = Inr (Some sp)"
  using assms
  by (auto simp: get_mid_price_def get_spread_def get_best_ask_def get_best_bid_def truthy_def Let_def
      split: list.splits if_splits)

lemma spread_without_mid: "get_mid_price ob = None \<Longrightarrow> get_spread ob = Inr None"
  by (simp add: get_mid_price_def get_spread_def Let_def split: if_splits)

lemma spread_of_zero_mid: "get_mid_price ob = Some 0 \<Longrightarrow> get_spread ob = Inl ZeroDivisionError"
  by (simp add: get_mid_price_def get_spread_def Let_def split: if_splits)

lemma depth_below_Some:
  "depth_below ls (Some mid) f =
     Inr (sum_list (map snd (filter (\<lambda>(price, level_size). price < mid * f) ls)))"
  by (simp add: depth_below_def)

text \<open>
  Claim C4. On the empty order book the deterministic baseline of the slippage model does
  not return 0: its branch for an empty side multiplies the remaining quantity by the
  mid price, which is \<^verbatim>\<open>None\<close> there, and the call raises \<^verbatim>\<open>TypeError\<close>.
\<close>

theorem empty_book_slippage_raises:
  "calculate_price_impact (OrderBook ''BTC-USDT-SWAP'' 100) 1 ''buy'' = Inl TypeError"
  by (simp add: calculate_price_impact_def OrderBook_def get_mid_price_def get_best_ask_def
      get_best_bid_def truthy_def)

lemma empty_side_slippage_raises:
  "asks ob = [] \<Longrightarrow> bids ob = [] \<Longrightarrow> 0 < Q \<Longrightarrow> calculate_price_impact ob Q side = Inl TypeError"
  by (simp add: calculate_price_impact_def get_mid_price_def get_best_ask_def
      get_best_bid_def truthy_def)

text \<open>
  Claim C2, as stated, fails on the empty order book: \<^verbatim>\<open>MakerTakerModel.predict\<close> raises
  \<^verbatim>\<open>TypeError\<close> there, in \<^verbatim>\<open>_simulate_execution\<close>, outside every \<^verbatim>\<open>try\<close>.
\<close>

theorem predict_raises_on_empty_book:
  "predict MakerTakerModel example_env (OrderBook ''BTC-USDT-SWAP'' 100) 100 2 = Inl TypeError"
  by (simp add: predict_def extract_features_def simulate_execution_def depth_below_def
      get_spread_def get_mid_price_def get_best_ask_def get_best_bid_def truthy_def py_div_def
      OrderBook_def Let_def relative_size_of_def)

text \<open>
  The same happens on every book without a mid price, and a mid price of zero makes
  \<^verbatim>\<open>get_spread\<close> divide by zero.
\<close>

lemma predict_raises_without_mid:
  "get_mid_price ob = None \<Longrightarrow> predict st env ob quantity volatility = Inl TypeError"
  by (cases "asks ob = []")
     (simp_all add: predict_def extract_features_def simulate_execution_def depth_below_def
        spread_without_mid py_div_def Let_def)

lemma predict_raises_on_zero_mid:
  "get_mid_price ob = Some 0 \<Longrightarrow> predict st env ob quantity volatility = Inl ZeroDivisionError"
  by (simp add: predict_def extract_features_def spread_of_zero_mid)

text \<open>
  Claim C2, amended. On every order book whose mid price is available and not zero, for
  every model state, classifier, quantity and volatility, \<^verbatim>\<open>predict\<close> returns, and the
  maker and taker proportions it returns lie in \<open>[0, 1]\<close> and sum to 1.
\<close>

theorem predict_proportions:
  assumes "get_mid_price ob = Some mid" "mid \<noteq> 0"
  shows "\<exists>st' maker taker. predict st env ob quantity volatility = Inr (st', maker, taker) \<and>
           0 \<le> maker \<and> maker \<le> 1 \<and> 0 \<le> taker \<and> taker \<le> 1 \<and> maker + taker = 1"
proof -
  obtain sp where sp: "get_spread ob = Inr (Some sp)" using spread_of_mid [OF assms] by blast
  have f: "\<exists>feats. extract_features ob quantity volatility = Inr feats"
    by (simp add: extract_features_def sp depth_below_Some assms)
  have s: "\<exists>sm. simulate_execution ob quantity volatility = Inr sm"
    by (simp add: simulate_execution_def sp depth_below_Some assms py_div_def Let_def)
  from f s obtain feats sm where
    "extract_features ob quantity volatility = Inr feats"
    "simulate_execution ob quantity volatility = Inr sm" by blast
  then show ?thesis
    by (simp add: predict_def Let_def)
qed

text \<open>
  Claim C3, as stated, fails on the empty order book: \<^verbatim>\<open>calculate_impact\<close> raises
  \<^verbatim>\<open>TypeError\<close> in \<^verbatim>\<open>_adjust_params_from_orderbook\<close>, which runs before the \<^verbatim>\<open>try\<close>.
\<close>

theorem calculate_impact_raises_on_empty_book:
  "fst (calculate_impact False MarketImpactModel (OrderBook ''BTC-USDT-SWAP'' 100) 100 2) = Inl TypeError"
  by (simp add: calculate_impact_def adjust_params_from_orderbook_def depth_below_def
      get_spread_def get_mid_price_def get_best_ask_def get_best_bid_def truthy_def py_div_def
      OrderBook_def Let_def relative_size_of_def)

text \<open>
  Every book without a mid price raises in the same place, and a mid price of zero raises
  \<^verbatim>\<open>ZeroDivisionError\<close> there.
\<close>

lemma calculate_impact_raises_without_mid:
  "get_mid_price ob = None \<Longrightarrow>
     fst (calculate_impact dp_raises m ob quantity volatility) = Inl TypeError"
  by (cases "asks ob = []")
     (simp_all add: calculate_impact_def adjust_params_from_orderbook_def depth_below_def
        spread_without_mid py_div_def Let_def)

lemma calculate_impact_raises_on_zero_mid:
  "get_mid_price ob = Some 0 \<Longrightarrow>
     fst (calculate_impact dp_raises m ob quantity volatility) = Inl ZeroDivisionError"
  by (simp add: calculate_impact_def adjust_params_from_orderbook_def depth_below_def
        spread_of_zero_mid Let_def)

lemma adjust_ok:
  assumes "get_mid_price ob = Some mid" "mid \<noteq> 0"
  shows "\<exists>m'. adjust_params_from_orderbook m ob quantity = (None, m')"
proof -
  obtain sp where sp: "get_spread ob = Inr (Some sp)" using spread_of_mid [OF assms] by blast
  show ?thesis
    by (simp add: adjust_params_from_orderbook_def sp depth_below_Some assms py_div_def Let_def)
qed

lemma clamp_range: "0 \<le> max 0 (min (1 / 10) (x::real)) \<and> max 0 (min (1 / 10) x) \<le> 1 / 10"
  by (simp add: max_def min_def)

lemma dp_impact_range: "0 \<le> dp_impact m q v \<and> dp_impact m q v \<le> 1 / 10"
  unfolding dp_impact_def Let_def by (rule clamp_range)

lemma fallback_range:
  assumes "get_mid_price ob = Some mid"
  shows "\<exists>r. fallback_impact ob q = Inr r \<and> 0 \<le> r \<and> r \<le> 1 / 10"
proof -
  define rs where "rs = relative_size_of q
      (sum_list (map snd (filter (\<lambda>(price, level_size). price < mid * (1005 / 1000)) (asks ob))))"
  have "fallback_impact ob q =
      Inr (if rs < 0 then 1 / 10 else min (1 / 10) ((2 / 100) * sqrt rs))"
    unfolding fallback_impact_def assms depth_below_Some rs_def by (simp add: Let_def)
  moreover have "0 \<le> (if rs < 0 then 1 / 10 else min (1 / 10) ((2 / 100) * sqrt rs))"
    by simp
  moreover have "(if rs < 0 then 1 / 10 else min (1 / 10) ((2 / 100) * sqrt rs)) \<le> 1 / 10"
    by (simp add: min_def)
  ultimately show ?thesis by blast
qed

text \<open>
  Claim C3, amended. On every order book whose mid price is available and not zero, for
  every quantity and volatility, \<^verbatim>\<open>calculate_impact\<close> returns a value in \<open>[0, 0.1]\<close>, on
  the dynamic-programming path and on the fallback path alike.
\<close>

theorem calculate_impact_range:
  assumes "get_mid_price ob = Some mid" "mid \<noteq> 0"
  shows "\<exists>r. fst (calculate_impact dp_raises m ob quantity volatility) = Inr r \<and>
              0 \<le> r \<and> r \<le> 1 / 10"
proof -
  obtain m' where a: "adjust_params_from_orderbook m ob quantity = (None, m')"
    using adjust_ok [OF assms] by blast
  show ?thesis
  proof (cases dp_raises)
    case True
    with a fallback_range [OF assms(1), of quantity] show ?thesis
      by (simp add: calculate_impact_def)
  next
    case False
    with a dp_impact_range [of m' quantity volatility] show ?thesis
      by (simp add: calculate_impact_def)
  qed
qed

text \<open>
  Claim C10. Two order books with the same ask levels and the same best bid price (or
  both without bids) give the same result of \<^verbatim>\<open>calculate_impact\<close>, exception or value,
  and leave the same parameters in the model, whatever their bid quantities and deeper
  bid levels are.
\<close>

theorem impact_sees_only_best_bid_price:
  assumes "asks ob1 = asks ob2" "fst (get_best_bid ob1) = fst (get_best_bid ob2)"
  shows "calculate_impact dp_raises m ob1 quantity volatility =
         calculate_impact dp_raises m ob2 quantity volatility"
proof -
  have a: "fst (get_best_ask ob1) = fst (get_best_ask ob2)"
    using assms(1) by (simp add: get_best_ask_def)
  have m: "get_mid_price ob1 = get_mid_price ob2"
    using a assms(2) by (simp add: get_mid_price_def)
  have s: "get_spread ob1 = get_spread ob2"
    using a assms(2) by (simp add: get_spread_def)
  have p: "adjust_params_from_orderbook m ob1 quantity = adjust_params_from_orderbook m ob2 quantity"
    unfolding adjust_params_from_orderbook_def m s assms(1) ..
  have f: "fallback_impact ob1 quantity = fallback_impact ob2 quantity"
    unfolding fallback_impact_def m assms(1) ..
  show ?thesis unfolding calculate_impact_def p f ..
qed


lemma example_book_levels:
  "asks example_book = [(101, 50), (102, 100)]" "bids example_book = [(100, 50), (99, 10)]"
  by (simp_all add: example_book_def update_def OrderBook_def rebuild_arrays_def limit_depth_def
      update_statistics_def Let_def last_n_def)

lemma thinner_book_levels:
  "asks thinner_book = [(101, 50), (102, 100)]" "bids thinner_book = [(100, 7)]"
  by (simp_all add: thinner_book_def example_book_def update_def OrderBook_def rebuild_arrays_def
      limit_depth_def update_statistics_def Let_def last_n_def)

lemma example_book_mid: "get_mid_price example_book = Some (201 / 2)"
  by (simp add: get_mid_price_def get_best_ask_def get_best_bid_def truthy_def example_book_levels)

theorem predict_proportions_witness:
  "get_mid_price example_book = Some (201 / 2) \<and> (201 / 2 :: real) \<noteq> 0 \<and>
   (\<exists>st' maker taker. predict MakerTakerModel example_env example_book 100 2 = Inr (st', maker, taker) \<and>
           0 \<le> maker \<and> maker \<le> 1 \<and> 0 \<le> taker \<and> taker \<le> 1 \<and> maker + taker = 1)"
proof -
  have n: "(201 / 2 :: real) \<noteq> 0" by simp
  from predict_proportions [OF example_book_mid n, of MakerTakerModel example_env 100 2]
    example_book_mid n show ?thesis by blast
qed

theorem calculate_impact_range_witness:
  "get_mid_price example_book = Some (201 / 2) \<and> (201 / 2 :: real) \<noteq> 0 \<and>
   (\<exists>r. fst (calculate_impact False MarketImpactModel example_book 100 2) = Inr r \<and>
              0 \<le> r \<and> r \<le> 1 / 10)"
proof -
  have n: "(201 / 2 :: real) \<noteq> 0" by simp
  from calculate_impact_range [OF example_book_mid n, of False MarketImpactModel 100 2]
    example_book_mid n show ?thesis by blast
qed

theorem impact_sees_only_best_bid_price_witness:
  "asks example_book = asks thinner_book \<and>
   fst (get_best_bid example_book) = fst (get_best_bid thinner_book) \<and>
   bids example_book \<noteq> bids thinner_book \<and>
   calculate_impact False MarketImpactModel example_book 100 2 =
   calculate_impact False MarketImpactModel thinner_book 100 2"
proof -
  have a: "asks example_book = asks thinner_book"
    by (simp add: example_book_levels thinner_book_levels)
  have b: "fst (get_best_bid example_book) = fst (get_best_bid thinner_book)"
    by (simp add: get_best_bid_def example_book_levels thinner_book_levels)
  have c: "bids example_book \<noteq> bids thinner_book"
    by (simp add: example_book_levels thinner_book_levels)
  from impact_sees_only_best_bid_price [OF a b, of False MarketImpactModel 100 2] a b c
  show ?thesis by blast
qed

lemma on_close_effects:
  assumes "should_reconnect c"
  shows "effects (on_close c) = effects c @ [Sleep 5, NewApp (apps_created c)]"
    and "ws (on_close c) = Some (apps_created c)"
    and "\<not> is_connected (on_close c)"
  using assms by (simp_all add: on_close_def connect_def Let_def)

lemma foldl_send_subscribe:
  assumes "ws c = Some app" "is_connected c"
  shows "foldl send_subscribe c xs =
           c\<lparr> effects := effects c @ map (\<lambda>s. Send app (Subscribe s)) xs \<rparr>"
  using assms
proof (induction xs arbitrary: c)
  case Nil
  then show ?case by simp
next
  case (Cons x xs)
  have "send_subscribe c x = c\<lparr> effects := effects c @ [Send app (Subscribe x)] \<rparr>"
    using Cons.prems by (simp add: send_subscribe_def)
  moreover have "ws (c\<lparr> effects := effects c @ [Send app (Subscribe x)] \<rparr>) = Some app"
    "is_connected (c\<lparr> effects := effects c @ [Send app (Subscribe x)] \<rparr>)"
    using Cons.prems by simp_all
  ultimately show ?case using Cons.IH by simp
qed

lemma on_open_resubscribes:
  assumes "ws c = Some app" "s \<in> set (subscriptions c)"
  shows "Send app (Subscribe s) \<in> set (effects (on_open c))"
proof -
  define c2 where "c2 = (if api_key c \<noteq> [] \<and> api_secret c \<noteq> []
      then c\<lparr> is_connected := True, effects := effects c @ [Send app Login] \<rparr>
      else c\<lparr> is_connected := True \<rparr>)"
  have c2: "ws c2 = Some app" "is_connected c2" "subscriptions c2 = subscriptions c"
    using assms(1) by (simp_all add: c2_def)
  have "on_open c = start_ping_thread (foldl send_subscribe c2 (subscriptions c2))"
    using assms(1) by (simp add: on_open_def c2_def Let_def)
  then show ?thesis
    using assms(2) c2 by (simp add: foldl_send_subscribe [OF c2(1,2)] start_ping_thread_def)
qed

text \<open>
  Claim C6. A close while reconnection is on sleeps five seconds and constructs one new
  application, and that is all: nothing runs the new application, so no connection is
  opened on it and no tracked symbol is sent to it.
\<close>

theorem close_leaves_new_app_unrun:
  "effects (on_close running_client) =
     [NewApp 0, RunForever 0, Send 0 Login, Send 0 (Subscribe ''BTC-USDT-SWAP''), StartPing,
      Sleep 5, NewApp 1] \<and>
   ws (on_close running_client) = Some 1 \<and>
   RunForever 1 \<notin> set (effects (on_close running_client)) \<and>
   Send 1 (Subscribe ''BTC-USDT-SWAP'') \<notin> set (effects (on_close running_client))"
  by (simp add: running_client_def on_close_def on_open_def start_def subscribe_def connect_def
      OKXWebsocket_def send_subscribe_def start_ping_thread_def Let_def)

section \<open>The trajectory table\<close>

lemma scan_sizes_from:
  assumes "b < k" "k \<le> Suc s"
    and "\<forall>n<k. cost b \<le> cost n" and "\<forall>n<b. cost b < cost n"
  shows "\<exists>b'. scan_sizes cost [k..<Suc s] (Some (cost b), b) = (Some (cost b'), b') \<and> b' \<le> s \<and>
            (\<forall>n\<le>s. cost b' \<le> cost n) \<and> (\<forall>n<b'. cost b' < cost n)"
  using assms
proof (induction "Suc s - k" arbitrary: k b)
  case 0
  then have "k = Suc s" by simp
  with 0 show ?case by (auto simp: less_Suc_eq_le)
next
  case (Suc d)
  then have k: "k < Suc s" by simp
  then have u: "[k..<Suc s] = k # [Suc k..<Suc s]" by (simp add: upt_conv_Cons)
  show ?case
  proof (cases "cost k < cost b")
    case True
    have "\<exists>b'. scan_sizes cost [Suc k..<Suc s] (Some (cost k), k) = (Some (cost b'), b') \<and> b' \<le> s \<and>
            (\<forall>n\<le>s. cost b' \<le> cost n) \<and> (\<forall>n<b'. cost b' < cost n)"
    proof (rule Suc.hyps(1))
      show "d = Suc s - Suc k" using Suc.hyps(2) by simp
      show "k < Suc k" by simp
      show "Suc k \<le> Suc s" using k by simp
      show "\<forall>n<Suc k. cost k \<le> cost n"
        using True Suc.prems(3) by (auto simp: less_Suc_eq) 
      show "\<forall>n<k. cost k < cost n"
        using True Suc.prems(3) by (auto intro: less_le_trans)
    qed
    with True u show ?thesis by (simp add: below_best_def)
  next
    case False
    have "\<exists>b'. scan_sizes cost [Suc k..<Suc s] (Some (cost b), b) = (Some (cost b'), b') \<and> b' \<le> s \<and>
            (\<forall>n\<le>s. cost b' \<le> cost n) \<and> (\<forall>n<b'. cost b' < cost n)"
    proof (rule Suc.hyps(1))
      show "d = Suc s - Suc k" using Suc.hyps(2) by simp
      show "b < Suc k" using Suc.prems(1) by simp
      show "Suc k \<le> Suc s" using k by simp
      show "\<forall>n<Suc k. cost b \<le> cost n"
        using False Suc.prems(3) by (auto simp: less_Suc_eq)
      show "\<forall>n<b. cost b < cost n" by (rule Suc.prems(4))
    qed
    with False u show ?thesis by (simp add: below_best_def)
  qed
qed

lemma best_entry_least_minimiser:
  "\<exists>b. best_entry m vd next_values s = (Some (total_cost m vd next_values s b), b) \<and> b \<le> s \<and>
        (\<forall>n\<le>s. total_cost m vd next_values s b \<le> total_cost m vd next_values s n) \<and>
        (\<forall>n<b. total_cost m vd next_values s b < total_cost m vd next_values s n)"
proof -
  let ?c = "total_cost m vd next_values s"
  have u: "[0..<Suc s] = 0 # [Suc 0..<Suc s]" by (simp add: upt_conv_Cons)
  have "\<exists>b'. scan_sizes ?c [Suc 0..<Suc s] (Some (?c 0), 0) = (Some (?c b'), b') \<and> b' \<le> s \<and>
            (\<forall>n\<le>s. ?c b' \<le> ?c n) \<and> (\<forall>n<b'. ?c b' < ?c n)"
    by (rule scan_sizes_from) auto
  then show ?thesis
    unfolding best_entry_def u by (simp add: below_best_def)
qed

lemma dp_row_nth:
  assumes "s \<le> N"
  shows "\<exists>b. dp_row m vd N next_values ! s = (total_cost m vd next_values s b, b) \<and> b \<le> s \<and>
        (\<forall>n\<le>s. total_cost m vd next_values s b \<le> total_cost m vd next_values s n) \<and>
        (\<forall>n<b. total_cost m vd next_values s b < total_cost m vd next_values s n)"
proof -
  obtain b where b: "best_entry m vd next_values s = (Some (total_cost m vd next_values s b), b)"
    "b \<le> s" "\<forall>n\<le>s. total_cost m vd next_values s b \<le> total_cost m vd next_values s n"
    "\<forall>n<b. total_cost m vd next_values s b < total_cost m vd next_values s n"
    using best_entry_least_minimiser [of m vd next_values s] by blast
  have "dp_row m vd N next_values ! s = (total_cost m vd next_values s b, b)"
    using assms b(1) unfolding dp_row_def
    by (simp add: nth_map_upt del: upt_Suc)
  with b show ?thesis by blast
qed

lemma length_backward_induction: "length (backward_induction m vd N k nv) = k"
  by (induction k arbitrary: nv) simp_all

lemma backward_induction_step:
  assumes "t < k" "map fst last_row = nv"
  shows "(backward_induction m vd N k nv @ [last_row]) ! t =
           dp_row m vd N (map fst ((backward_induction m vd N k nv @ [last_row]) ! Suc t))"
  using assms
proof (induction k arbitrary: nv last_row)
  case 0
  then show ?case by simp
next
  case (Suc j)
  let ?row = "dp_row m vd N nv"
  let ?front = "backward_induction m vd N j (map fst ?row)"
  have len: "length ?front = j" by (rule length_backward_induction)
  have e: "backward_induction m vd N (Suc j) nv @ [last_row] = (?front @ [?row]) @ [last_row]"
    by simp
  show ?case
  proof (cases "t < j")
    case True
    have "(?front @ [?row]) ! t = dp_row m vd N (map fst ((?front @ [?row]) ! Suc t))"
      by (rule Suc.IH [OF True]) simp
    moreover have "((?front @ [?row]) @ [last_row]) ! t = (?front @ [?row]) ! t"
      using True len by (simp add: nth_append)
    moreover have "((?front @ [?row]) @ [last_row]) ! Suc t = (?front @ [?row]) ! Suc t"
      using True len by (simp add: nth_append)
    ultimately show ?thesis unfolding e by simp
  next
    case False
    with Suc.prems(1) have t: "t = j" by simp
    have "((?front @ [?row]) @ [last_row]) ! t = ?row"
      using t len by (simp add: nth_append)
    moreover have "((?front @ [?row]) @ [last_row]) ! Suc t = last_row"
      using t len by (simp add: nth_append)
    ultimately show ?thesis unfolding e using Suc.prems(2) by simp
  qed
qed


lemma length_dp_row: "length (dp_row m vd N nv) = Suc N"
  by (simp add: dp_row_def del: upt_Suc)

text \<open>
  Claim C8. In every slice before the last and for every inventory up to \<open>N\<close>, the move
  recorded in \<^verbatim>\<open>best_moves\<close> is at most the inventory, the value recorded is the cost of
  that move, no move costs less, and every smaller move costs strictly more: the scan
  keeps the smallest minimiser.
\<close>

theorem best_move_is_least_minimiser:
  assumes "t < time_steps - 1" and "shares \<le> nat \<lfloor>quantity\<rfloor>"
  shows
    "fst (snd (calculate_optimal_trajectory m quantity volatility time_steps)) ! t ! shares \<le> shares \<and>
     fst (calculate_optimal_trajectory m quantity volatility time_steps) ! t ! shares =
       total_cost m (volatility / 100)
         (fst (calculate_optimal_trajectory m quantity volatility time_steps) ! Suc t) shares
         (fst (snd (calculate_optimal_trajectory m quantity volatility time_steps)) ! t ! shares) \<and>
     (\<forall>n\<le>shares.
        total_cost m (volatility / 100)
          (fst (calculate_optimal_trajectory m quantity volatility time_steps) ! Suc t) shares
          (fst (snd (calculate_optimal_trajectory m quantity volatility time_steps)) ! t ! shares)
        \<le> total_cost m (volatility / 100)
          (fst (calculate_optimal_trajectory m quantity volatility time_steps) ! Suc t) shares n) \<and>
     (\<forall>n<fst (snd (calculate_optimal_trajectory m quantity volatility time_steps)) ! t ! shares.
        total_cost m (volatility / 100)
          (fst (calculate_optimal_trajectory m quantity volatility time_steps) ! Suc t) shares
          (fst (snd (calculate_optimal_trajectory m quantity volatility time_steps)) ! t ! shares)
        < total_cost m (volatility / 100)
          (fst (calculate_optimal_trajectory m quantity volatility time_steps) ! Suc t) shares n)"
proof -
  define N where "N = nat \<lfloor>quantity\<rfloor>"
  define vd where "vd = volatility / 100"
  define rows where "rows = backward_induction m vd N (time_steps - 1) (map fst (terminal_row m N))
                              @ [terminal_row m N]"
  have vf: "fst (calculate_optimal_trajectory m quantity volatility time_steps) = map (map fst) rows"
    and bm: "fst (snd (calculate_optimal_trajectory m quantity volatility time_steps)) = map (map snd) rows"
    by (simp_all add: calculate_optimal_trajectory_def Let_def rows_def N_def vd_def)
  have len: "length rows = time_steps"
    using assms(1) by (simp add: rows_def length_backward_induction)
  have step: "rows ! t = dp_row m vd N (map fst (rows ! Suc t))"
    unfolding rows_def by (rule backward_induction_step [OF assms(1)]) simp
  have nv: "map (map fst) rows ! Suc t = map fst (rows ! Suc t)"
    using assms(1) len by simp
  have s: "shares \<le> N" using assms(2) by (simp add: N_def)
  obtain b where b: "dp_row m vd N (map fst (rows ! Suc t)) ! shares =
        (total_cost m vd (map fst (rows ! Suc t)) shares b, b)" "b \<le> shares"
      "\<forall>n\<le>shares. total_cost m vd (map fst (rows ! Suc t)) shares b
          \<le> total_cost m vd (map fst (rows ! Suc t)) shares n"
      "\<forall>n<b. total_cost m vd (map fst (rows ! Suc t)) shares b
          < total_cost m vd (map fst (rows ! Suc t)) shares n"
    using dp_row_nth [OF s, of m vd "map fst (rows ! Suc t)"] by blast
  have lt: "shares < length (rows ! t)"
    using s by (simp add: step length_dp_row)
  have mv: "map (map snd) rows ! t ! shares = b"
    using assms(1) len lt b(1) by (simp add: step)
  have vl: "map (map fst) rows ! t ! shares = total_cost m vd (map fst (rows ! Suc t)) shares b"
    using assms(1) len lt b(1) by (simp add: step)
  show ?thesis
    unfolding vf bm nv mv vl vd_def [symmetric] using b(2,3,4) by blast
qed

lemma tie_tables:
  "fst (calculate_optimal_trajectory tie_model 2 0 2) = [[0, 1 / 10, 4 / 10], [0, 1 / 10, 4 / 10]]"
  "fst (snd (calculate_optimal_trajectory tie_model 2 0 2)) = [[0, 0, 0], [0, 1, 2]]"
  by (simp_all add: calculate_optimal_trajectory_def backward_induction.simps dp_row_def
      best_entry_def terminal_row_def total_cost_def temporary_impact_def permanent_impact_def
      time_step_size_def below_best_def tie_model_def MarketImpactModel_def Let_def
      upt_conv_Cons numeral_2_eq_2)

lemma tie_costs:
  "total_cost tie_model 0 [0, 1 / 10, 2 / 5] 2 0 = 2 / 5"
  "total_cost tie_model 0 [0, 1 / 10, 2 / 5] 2 (Suc 0) = 2 / 5"
  "total_cost tie_model 0 [0, 1 / 10, 2 / 5] 2 2 = 2 / 5"
  by (simp_all add: total_cost_def temporary_impact_def permanent_impact_def
      time_step_size_def tie_model_def MarketImpactModel_def numeral_2_eq_2)

theorem best_move_is_least_minimiser_witness:
  "(0::nat) < 2 - 1 \<and> (2::nat) \<le> nat \<lfloor>2::real\<rfloor> \<and>
   fst (snd (calculate_optimal_trajectory tie_model 2 0 2)) ! 0 ! 2 = 0 \<and>
   fst (calculate_optimal_trajectory tie_model 2 0 2) ! 0 ! 2 =
     total_cost tie_model (0 / 100) (fst (calculate_optimal_trajectory tie_model 2 0 2) ! Suc 0) 2 0 \<and>
   total_cost tie_model (0 / 100) (fst (calculate_optimal_trajectory tie_model 2 0 2) ! Suc 0) 2 0
     = total_cost tie_model (0 / 100) (fst (calculate_optimal_trajectory tie_model 2 0 2) ! Suc 0) 2 1 \<and>
   total_cost tie_model (0 / 100) (fst (calculate_optimal_trajectory tie_model 2 0 2) ! Suc 0) 2 0
     = total_cost tie_model (0 / 100) (fst (calculate_optimal_trajectory tie_model 2 0 2) ! Suc 0) 2 2"
  using best_move_is_least_minimiser [where t = 0 and shares = 2 and quantity = 2
      and time_steps = 2 and m = tie_model and volatility = 0]
  by (simp add: tie_tables tie_costs)

end
